theory Spec2Isabelle
  imports Complex_Main
begin

section \<open>Exceptions and array helpers\<close>

text \<open>
  Exceptions of the Python source are values. A raised exception is \<open>Inl e\<close>, a normal
  return is \<open>Inr v\<close>. Messages are kept as the source writes them, with format
  placeholders left unexpanded and without the quotation marks inside a message.
\<close>

datatype exn =
    ValueError string
  | TypeError string
  | IndexError
  | ZeroDivisionError
  | AttributeError string
  | WindowError
  | OtherError string

definition ebind :: "exn + 'a \<Rightarrow> ('a \<Rightarrow> exn + 'b) \<Rightarrow> exn + 'b" where
  "ebind m f = (case m of Inl e \<Rightarrow> Inl e | Inr v \<Rightarrow> f v)"

text \<open>\<open>np.nonzero(mask)[0]\<close>: the ascending indices at which a boolean vector is true.\<close>

definition nonzero :: "bool list \<Rightarrow> nat list" where
  "nonzero bs = filter (\<lambda>i. bs ! i) [0..<length bs]"

text \<open>
  \<open>xs[idx]\<close> with an index array: every index must be in range, otherwise numpy raises
  IndexError.
\<close>

definition take_idx :: "'a list \<Rightarrow> nat list \<Rightarrow> exn + 'a list" where
  "take_idx xs idx =
     (if list_all (\<lambda>i. i < length xs) idx then Inr (map (\<lambda>i. xs ! i) idx)
      else Inl IndexError)"

text \<open>
  Elementwise \<open>xs - ys\<close> on 1-d arrays, with numpy's broadcasting of a length-one
  operand and its ValueError on any other length mismatch.
\<close>

definition np_sub :: "real list \<Rightarrow> real list \<Rightarrow> exn + real list" where
  "np_sub xs ys =
     (if length xs = length ys then Inr (map2 (\<lambda>x y. x - y) xs ys)
      else if length xs = 1 then Inr (map (\<lambda>y. hd xs - y) ys)
      else if length ys = 1 then Inr (map (\<lambda>x. x - hd ys) xs)
      else Inl (ValueError ''operands could not be broadcast together''))"

section \<open>Amplitude segmentation: \<open>segment_song\<close>\<close>

record segment_params =
  threshold :: real
  min_syl_dur :: real
  min_silent_dur :: real

text \<open>The literal dictionary used when \<open>segment_params is None\<close>.\<close>

definition default_segment_params :: segment_params where
  "default_segment_params =
     \<lparr>threshold = 5000, min_syl_dur = 0.2, min_silent_dur = 0.02\<rparr>"

text \<open>The defaults that the docstring of \<open>segment_song\<close> announces.\<close>

definition documented_segment_params :: segment_params where
  "documented_segment_params =
     \<lparr>threshold = 5000, min_syl_dur = 0.02, min_silent_dur = 0.002\<rparr>"

definition b2i :: "bool \<Rightarrow> int" where
  "b2i b = (if b then 1 else 0)"

text \<open>
  \<open>np.convolve([1, -1], above_th)\<close> in full mode: entry \<open>i\<close> is
  \<open>above_th[i] - above_th[i - 1]\<close> with zeros outside the vector, so the result is one
  longer than the input. numpy refuses an empty operand.
\<close>

definition convolve_h :: "bool list \<Rightarrow> exn + int list" where
  "convolve_h above_th =
     (if above_th = [] then Inl (ValueError ''v cannot be empty'')
      else Inr (map2 (\<lambda>a b. a - b) (map b2i above_th @ [0]) (0 # map b2i above_th)))"

definition segment_song ::
  "real list \<Rightarrow> real list \<Rightarrow> segment_params option \<Rightarrow> exn + (real list \<times> real list)" where
  "segment_song amp time_bins segment_params_arg =
     (let segment_params =
            (case segment_params_arg of None \<Rightarrow> default_segment_params | Some p \<Rightarrow> p);
          above_th = map (\<lambda>a. a > threshold segment_params) amp
      in ebind (convolve_h above_th) (\<lambda>above_th_convoluted.
         ebind (take_idx time_bins (nonzero (map (\<lambda>c. c > 0) above_th_convoluted))) (\<lambda>onsets.
         ebind (take_idx time_bins (nonzero (map (\<lambda>c. c < 0) above_th_convoluted))) (\<lambda>offsets.
         ebind (np_sub (drop 1 onsets) (butlast offsets)) (\<lambda>silent_gap_durs.
         let keep_these = nonzero (map (\<lambda>d. d > min_silent_dur segment_params) silent_gap_durs)
         in ebind (take_idx onsets keep_these) (\<lambda>onsets1.
            ebind (take_idx offsets keep_these) (\<lambda>offsets1.
            ebind (np_sub offsets1 onsets1) (\<lambda>syl_durs.
            let keep_these2 = nonzero (map (\<lambda>d. d > min_syl_dur segment_params) syl_durs)
            in ebind (take_idx onsets1 keep_these2) (\<lambda>onsets2.
               ebind (take_idx offsets1 keep_these2) (\<lambda>offsets2.
               Inr (onsets2, offsets2)))))))))))"

section \<open>Spectrogram configuration: \<open>Spectrogram.__init__\<close>\<close>

text \<open>
  The constructor receives arbitrary Python values and checks their types itself, so
  its arguments are values of a small universe of Python values.
\<close>

datatype pyval =
    PNone
  | PBool bool
  | PInt int
  | PFloat real
  | PStr string
  | PList "pyval list"

fun is_int :: "pyval \<Rightarrow> bool" where
  "is_int (PInt n) = True"
| "is_int v = False"

fun the_int :: "pyval \<Rightarrow> int" where
  "the_int (PInt n) = n"
| "the_int v = 0"

fun is_str :: "pyval \<Rightarrow> bool" where
  "is_str (PStr s) = True"
| "is_str v = False"

fun the_str :: "pyval \<Rightarrow> string" where
  "the_str (PStr s) = s"
| "the_str v = []"

fun is_bool :: "pyval \<Rightarrow> bool" where
  "is_bool (PBool b) = True"
| "is_bool v = False"

fun the_bool :: "pyval \<Rightarrow> bool" where
  "the_bool (PBool b) = b"
| "the_bool v = False"

fun is_list :: "pyval \<Rightarrow> bool" where
  "is_list (PList vs) = True"
| "is_list v = False"

fun the_list :: "pyval \<Rightarrow> pyval list" where
  "the_list (PList vs) = vs"
| "the_list v = []"

text \<open>
  An instance attribute either has been assigned or does not exist; reading one that
  does not exist raises AttributeError. An attribute assigned \<open>None\<close> exists.
\<close>

datatype 'a attr = Unset | Attr 'a

definition getattr :: "string \<Rightarrow> 'a attr \<Rightarrow> exn + 'a" where
  "getattr name a = (case a of Unset \<Rightarrow> Inl (AttributeError name) | Attr v \<Rightarrow> Inr v)"

text \<open>
  The window arrays are built by \<open>np.hanning(nperseg)\<close> and
  \<open>slepian(nperseg, 4 / nperseg)\<close>; only which one was built, and for which length,
  is recorded.
\<close>

datatype window_array = Hanning int | Slepian int

record spectrogram =
  nperseg :: "int attr"
  noverlap :: "int attr"
  window :: "window_array option attr"
  freqCutoffs :: "int list option attr"
  filterFunc :: "string option attr"
  spectFunc :: "string attr"
  logTransformSpect :: "bool attr"
  ref :: "string attr"

definition new_spectrogram :: spectrogram where
  "new_spectrogram =
     \<lparr>nperseg = Unset, noverlap = Unset, window = Unset, freqCutoffs = Unset,
      filterFunc = Unset, spectFunc = Unset, logTransformSpect = Unset, ref = Unset\<rparr>"

definition ref_and_params_warning :: string where
  "ref_and_params_warning =
     ''Spectrogram class received ref parameter but also received other parameters, will over-write those with defaults for reference.''"

text \<open>\<open>slepian(nperseg, 4 / nperseg)\<close>: the true division raises on zero.\<close>

definition slepian :: "int \<Rightarrow> exn + window_array" where
  "slepian n = (if n = 0 then Inl ZeroDivisionError else Inr (Slepian n))"

text \<open>The branch \<open>elif ref is None\<close> of the constructor.\<close>

definition init_explicit ::
  "pyval \<Rightarrow> pyval \<Rightarrow> pyval \<Rightarrow> pyval \<Rightarrow> pyval \<Rightarrow> pyval \<Rightarrow> pyval \<Rightarrow> exn + spectrogram" where
  "init_explicit nperseg_arg noverlap_arg freq_cutoffs window_arg filter_func spect_func_arg
       log_transform_spect =
     (if nperseg_arg = PNone then
        Inl (ValueError ''nperseg requires a value for Spectrogram.__init__'')
      else if noverlap_arg = PNone then
        Inl (ValueError ''noverlap requires a value for Spectrogram.__init__'')
      else
        let spect_func = (if spect_func_arg = PNone then PStr ''scipy'' else spect_func_arg);
            self = new_spectrogram
        in
        if \<not> is_int nperseg_arg then Inl (TypeError ''type of nperseg must be int, but is {}'')
        else let self = self\<lparr>nperseg := Attr (the_int nperseg_arg)\<rparr> in
        if \<not> is_int noverlap_arg then Inl (TypeError ''type of noverlap must be int, but is {}'')
        else let self = self\<lparr>noverlap := Attr (the_int noverlap_arg)\<rparr> in
        if window_arg \<noteq> PNone \<and> \<not> is_str window_arg then
          Inl (TypeError ''type of window must be str, but is {}'')
        else if window_arg \<notin> {PStr ''Hann'', PStr ''dpss'', PNone} then
          Inl (ValueError ''{} is not a valid specification for window'')
        else
          ebind (if window_arg = PStr ''Hann'' then Inr (Some (Hanning (the_int nperseg_arg)))
                 else if window_arg = PStr ''dpss'' then
                   ebind (slepian (the_int nperseg_arg)) (\<lambda>w. Inr (Some w))
                 else Inr None) (\<lambda>w.
          let self = self\<lparr>window := Attr w\<rparr> in
          if \<not> is_list freq_cutoffs then
            Inl (TypeError ''type of freq_cutoffs must be list, but is {}'')
          else if length (the_list freq_cutoffs) \<noteq> 2 then
            Inl (ValueError ''freq_cutoffs list should have length 2, but length is {}'')
          else if \<not> list_all is_int (the_list freq_cutoffs) then
            Inl (ValueError ''all values in freq_cutoffs list must be ints'')
          else let self = self\<lparr>freqCutoffs := Attr (Some (map the_int (the_list freq_cutoffs)))\<rparr> in
          if filter_func \<noteq> PNone \<and> \<not> is_str filter_func then
            Inl (TypeError ''type of filter_func must be str, but is {}'')
          else if filter_func \<notin> {PStr ''diff'', PNone} then
            Inl (ValueError ''string {} is not valid for filter_func. Valid values are: diff or None.'')
          else
            let self = self\<lparr>filterFunc :=
                         Attr (if filter_func = PNone then None else Some (the_str filter_func))\<rparr>
            in
            if \<not> is_str spect_func then
              Inl (TypeError ''type of spect_func must be str, but is {}'')
            else if spect_func \<notin> {PStr ''scipy'', PStr ''mpl''} then
              Inl (ValueError ''string {} is not valid for filter_func. Valid values are: scipy or mpl.'')
            else let self = self\<lparr>spectFunc := Attr (the_str spect_func)\<rparr> in
            if \<not> is_bool log_transform_spect then
              Inl (ValueError ''Value for log_transform_spect is {}, but it must be bool.'')
            else Inr (self\<lparr>logTransformSpect := Attr (the_bool log_transform_spect)\<rparr>)))"

text \<open>
  The constructor returns the object together with the warnings it issued. With a
  reference name and any of the five listed parameters, it only warns: the assignments of
  the preset are in the \<open>else\<close> of that test.
\<close>

definition Spectrogram_init ::
  "pyval \<Rightarrow> pyval \<Rightarrow> pyval \<Rightarrow> pyval \<Rightarrow> pyval \<Rightarrow> pyval \<Rightarrow> pyval \<Rightarrow> pyval
     \<Rightarrow> exn + (spectrogram \<times> string list)" where
  "Spectrogram_init ref_arg nperseg_arg noverlap_arg freq_cutoffs window_arg filter_func
       spect_func log_transform_spect =
     (if ref_arg \<noteq> PNone then
        if ref_arg \<notin> {PStr ''tachibana'', PStr ''koumura''} then
          Inl (ValueError ''{} is not a valid value for reference argument'')
        else if list_ex (\<lambda>param. param \<noteq> PNone)
                  [nperseg_arg, noverlap_arg, freq_cutoffs, filter_func, spect_func] then
          Inr (new_spectrogram, [ref_and_params_warning])
        else if ref_arg = PStr ''tachibana'' then
          Inr (new_spectrogram
                 \<lparr>nperseg := Attr 256, noverlap := Attr 192, window := Attr (Some (Hanning 256)),
                  freqCutoffs := Attr None, filterFunc := Attr (Some ''diff''),
                  spectFunc := Attr ''mpl'', logTransformSpect := Attr False,
                  ref := Attr ''tachibana''\<rparr>, [])
        else if ref_arg = PStr ''koumura'' then
          ebind (slepian 512) (\<lambda>w.
          Inr (new_spectrogram
                 \<lparr>nperseg := Attr 512, noverlap := Attr 480, window := Attr (Some w),
                  freqCutoffs := Attr (Some [1000, 8000]), filterFunc := Attr None,
                  spectFunc := Attr ''scipy'', logTransformSpect := Attr True,
                  ref := Attr ''koumura''\<rparr>, []))
        else Inl (ValueError ''{} is not a valid value for ref argument.'')
      else
        ebind (init_explicit nperseg_arg noverlap_arg freq_cutoffs window_arg filter_func
                 spect_func log_transform_spect) (\<lambda>self. Inr (self, [])))"

section \<open>Making a spectrogram: \<open>Spectrogram.make\<close>\<close>

text \<open>
  A 2-d array keeps its number of columns beside its rows, so that an array with no
  rows still has a second dimension, as a numpy array of shape \<open>(0, n)\<close> has.
\<close>

record 'a matrix =
  ncols :: nat
  rows :: "'a list list"

subsection \<open>Syllables and songs\<close>

text \<open>
  \<open>np.nan\<close> stands in for a spectrogram and its axes when none could be made.
\<close>

datatype 'a nan_or = Nan | Val 'a

text \<open>
  The \<open>syllable\<close> class. Its attributes \<open>sampFreq\<close>, \<open>spect\<close> and \<open>freqCutoffs\<close>
  carry the prefix \<open>syl_\<close> here, the plain names being in use elsewhere.
\<close>

record 'a syllable =
  sylAudio :: "int list"
  syl_sampFreq :: int
  syl_spect :: "'a matrix nan_or"
  nfft :: int
  overlap :: int
  syl_freqCutoffs :: "int list option"
  freqBins :: "real list nan_or"
  timeBins :: "real list nan_or"
  index :: nat
  label :: char

text \<open>
  The attributes of \<open>Song\<close> that \<open>make_syl_spects\<close> reads or writes. \<open>syls_to_use\<close>
  and \<open>syls\<close> exist only once assigned.
\<close>

record 'a song =
  filename :: string
  fileFormat :: string
  rawAudio :: "int list"
  sampFreq :: int
  onsets_Hz :: "int list"
  offsets_Hz :: "int list"
  labels :: string
  syls_to_use :: "bool list attr"
  syls :: "'a syllable list attr"

text \<open>The keyword arguments of \<open>Spectrogram(**spect_params)\<close>; an absent key is its default.\<close>

record spect_params =
  sp_ref :: pyval
  sp_nperseg :: pyval
  sp_noverlap :: pyval
  sp_freq_cutoffs :: pyval
  sp_window :: pyval
  sp_filter_func :: pyval
  sp_spect_func :: pyval
  sp_log_transform_spect :: pyval

subsection \<open>Array operations and backends\<close>

definition shape0 :: "'a matrix \<Rightarrow> nat" where
  "shape0 m = length (rows m)"

definition shape1 :: "'a matrix \<Rightarrow> nat" where
  "shape1 m = ncols m"

definition map_matrix :: "('a \<Rightarrow> 'a) \<Rightarrow> 'a matrix \<Rightarrow> 'a matrix" where
  "map_matrix f m = m\<lparr>rows := map (map f) (rows m)\<rparr>"

definition flipud :: "'a matrix \<Rightarrow> 'a matrix" where
  "flipud m = m\<lparr>rows := rev (rows m)\<rparr>"

text \<open>\<open>spect[f_inds, :]\<close>: row selection by an index array.\<close>

definition take_rows :: "'a matrix \<Rightarrow> nat list \<Rightarrow> exn + 'a matrix" where
  "take_rows m idx = ebind (take_idx (rows m) idx) (\<lambda>rs. Inr (m\<lparr>rows := rs\<rparr>))"

text \<open>\<open>np.diff\<close> of a 1-d array: one entry fewer, none for an array of at most one entry.\<close>

definition np_diff :: "int list \<Rightarrow> int list" where
  "np_diff xs = map2 (\<lambda>b a. b - a) (tl xs) (butlast xs)"

text \<open>
  The transforms themselves are library code (\<open>scipy.signal.spectrogram\<close>,
  \<open>matplotlib.mlab.specgram\<close>, \<open>np.log10\<close>) working on floating-point data. They are
  parameters of the model: each backend takes the waveform, the sampling frequency, the
  optional window array, \<open>nperseg\<close> and \<open>noverlap\<close>, and either raises or returns the
  frequency axis, the time axis and the matrix. The element type of the matrix is left
  open.
\<close>

type_synonym 'a backend =
  "int list \<Rightarrow> int \<Rightarrow> window_array option \<Rightarrow> int \<Rightarrow> int
     \<Rightarrow> exn + (real list \<times> real list \<times> 'a matrix)"

record 'a numlib =
  scipy_spectrogram :: "'a backend"
  mlab_specgram :: "'a backend"
  np_log10 :: "'a \<Rightarrow> 'a"

text \<open>
  The body of the \<open>try\<close> statement. A value of \<open>spectFunc\<close> other than the two names
  assigns nothing, and the first later use of \<open>spect\<close> fails.
\<close>

definition try_spectrogram ::
  "'a numlib \<Rightarrow> spectrogram \<Rightarrow> int list \<Rightarrow> int
     \<Rightarrow> exn + (real list \<times> real list \<times> 'a matrix)" where
  "try_spectrogram lib self raw_audio samp_freq =
     ebind (getattr ''spectFunc'' (spectFunc self)) (\<lambda>sf.
       if sf = ''scipy'' then
         ebind (getattr ''window'' (window self)) (\<lambda>w.
         ebind (getattr ''nperseg'' (nperseg self)) (\<lambda>n.
         ebind (getattr ''noverlap'' (noverlap self)) (\<lambda>ov.
         scipy_spectrogram lib raw_audio samp_freq w n ov)))
       else if sf = ''mpl'' then
         ebind (getattr ''window'' (window self)) (\<lambda>w.
         ebind (getattr ''nperseg'' (nperseg self)) (\<lambda>n.
         ebind (getattr ''noverlap'' (noverlap self)) (\<lambda>ov.
         mlab_specgram lib raw_audio samp_freq w n ov)))
       else Inl (OtherError ''UnboundLocalError''))"

text \<open>The \<open>except ValueError as err\<close> clause: one message is remapped, the rest re-raised.\<close>

fun except_ValueError :: "exn \<Rightarrow> exn" where
  "except_ValueError (ValueError msg) =
     (if msg = ''window is longer than input signal'' then WindowError else ValueError msg)"
| "except_ValueError e = e"

text \<open>
  Band selection: the indices of the bins with \<open>freq_cutoffs[0] \<le> f < freq_cutoffs[1]\<close>,
  applied to the frequency axis and to the rows of the matrix.
\<close>

definition list_get :: "'a list \<Rightarrow> nat \<Rightarrow> exn + 'a" where
  "list_get xs i = (if i < length xs then Inr (xs ! i) else Inl IndexError)"

definition band_select ::
  "int list \<Rightarrow> real list \<Rightarrow> 'a matrix \<Rightarrow> exn + (real list \<times> 'a matrix)" where
  "band_select cutoffs freq_bins spect =
     ebind (list_get cutoffs 0) (\<lambda>lo.
     ebind (list_get cutoffs 1) (\<lambda>hi.
     let f_inds = nonzero (map (\<lambda>f. f \<ge> real_of_int lo \<and> f < real_of_int hi) freq_bins)
     in ebind (take_idx freq_bins f_inds) (\<lambda>freq_bins1.
        ebind (take_rows spect f_inds) (\<lambda>spect1.
        Inr (freq_bins1, spect1)))))"

definition make ::
  "'a numlib \<Rightarrow> spectrogram \<Rightarrow> int list \<Rightarrow> int
     \<Rightarrow> exn + ('a matrix \<times> real list \<times> real list)" where
  "make lib self raw_audio_arg samp_freq =
     ebind (getattr ''filterFunc'' (filterFunc self)) (\<lambda>ff.
     let raw_audio = (if ff = Some ''diff'' then np_diff raw_audio_arg else raw_audio_arg) in
     case try_spectrogram lib self raw_audio samp_freq of
       Inl err \<Rightarrow> Inl (except_ValueError err)
     | Inr (freq_bins, time_bins, spect) \<Rightarrow>
         ebind (getattr ''logTransformSpect'' (logTransformSpect self)) (\<lambda>lt.
         let spect1 = (if lt then map_matrix (np_log10 lib) spect else spect) in
         ebind (getattr ''freqCutoffs'' (freqCutoffs self)) (\<lambda>fc.
         ebind (case fc of None \<Rightarrow> Inr (freq_bins, spect1)
                | Some cutoffs \<Rightarrow> band_select cutoffs freq_bins spect1) (\<lambda>(freq_bins2, spect2).
         Inr (flipud spect2, rev freq_bins2, time_bins)))))"

section \<open>Syllable spectrograms: \<open>Song.make_syl_spects\<close>\<close>

text \<open>
  \<open>xs[start:stop]\<close>: a negative bound counts from the end, and both bounds are clipped
  to the array.
\<close>

definition py_slice :: "'a list \<Rightarrow> int \<Rightarrow> int \<Rightarrow> 'a list" where
  "py_slice xs start stop =
     (let n = int (length xs);
          a = (if start < 0 then max (start + n) 0 else min start n);
          b = (if stop < 0 then max (stop + n) 0 else min stop n)
      in take (nat (b - a)) (drop (nat a) xs))"

text \<open>
  \<open>int(round(width_diff / 2))\<close>: Python rounds a half to the nearest even integer.
\<close>

definition round_half :: "int \<Rightarrow> int" where
  "round_half d =
     (if even d then d div 2
      else if even (d div 2) then d div 2 else d div 2 + 1)"


text \<open>
  The paddings \<open>(left_width, right_width)\<close> of a selected syllable within the fixed
  width, from the width in samples, the onset, the offset and the length of the
  recording.
\<close>

definition fixed_width_pads :: "int \<Rightarrow> int \<Rightarrow> int \<Rightarrow> int \<Rightarrow> int \<times> int" where
  "fixed_width_pads syl_spect_width_Hz onset offset audio_len =
     (let syl_duration_in_samples = offset - onset;
          width_diff = syl_spect_width_Hz - syl_duration_in_samples;
          left_width = round_half width_diff;
          right_width = width_diff - left_width
      in if left_width > onset then (0, width_diff - offset)
         else if offset + right_width > audio_len then
           (width_diff - (audio_len - offset), audio_len - offset)
         else (left_width, right_width))"

definition duration_message :: string where
  "duration_message =
     ''syllable duration of syllable {} with label {} in file {} is greater than width specified for all syllable spectrograms.''"

definition segment_warning :: string where
  "segment_warning =
     ''Segment {0} in {1} with label {2} not long enough for window function set with current spect_params. spect will be set to nan.''"


text \<open>
  The \<open>try\<close> statement around \<open>spect_maker.make\<close>: a WindowError is caught, warned
  about and replaced by three \<open>np.nan\<close>; any other exception propagates.
\<close>

definition try_make ::
  "'a numlib \<Rightarrow> spectrogram \<Rightarrow> int list \<Rightarrow> int
     \<Rightarrow> exn + ('a matrix nan_or \<times> real list nan_or \<times> real list nan_or \<times> string list)" where
  "try_make lib spect_maker syl_audio samp_freq =
     (case make lib spect_maker syl_audio samp_freq of
        Inl err \<Rightarrow> (if err = WindowError then Inr (Nan, Nan, Nan, [segment_warning])
                     else Inl err)
      | Inr (spect, freq_bins, time_bins) \<Rightarrow> Inr (Val spect, Val freq_bins, Val time_bins, []))"

text \<open>
  The audio of a selected syllable: the fixed-width window around it when
  \<open>syl_spect_width_Hz\<close> exists, else \<open>rawAudio[onset:offset]\<close>.
\<close>

definition syl_audio_slice :: "int list \<Rightarrow> int option \<Rightarrow> int \<Rightarrow> int \<Rightarrow> int list" where
  "syl_audio_slice raw_audio width onset offset =
     (case width of
        None \<Rightarrow> py_slice raw_audio onset offset
      | Some w \<Rightarrow>
          (case fixed_width_pads w onset offset (int (length raw_audio)) of
             (left_width, right_width) \<Rightarrow>
               py_slice raw_audio (onset - left_width) (offset + right_width)))"

text \<open>
  The loop over \<open>enumerate(zip(self.labels, self.onsets_Hz, self.offsets_Hz))\<close>, with
  the list of syllables and the warnings issued so far. \<open>width\<close> is
  \<open>syl_spect_width_Hz\<close> when that local variable exists.
\<close>

fun syl_loop ::
  "'a numlib \<Rightarrow> 'a song \<Rightarrow> bool list \<Rightarrow> spectrogram \<Rightarrow> int option
     \<Rightarrow> (nat \<times> char \<times> int \<times> int) list \<Rightarrow> 'a syllable list \<Rightarrow> string list
     \<Rightarrow> exn + ('a syllable list \<times> string list)" where
  "syl_loop lib self use spect_maker width [] all_syls warns = Inr (all_syls, warns)"
| "syl_loop lib self use spect_maker width ((ind, lbl, onset, offset) # rest) all_syls warns =
     (let syl_duration_in_samples = offset - onset in
      if (case width of None \<Rightarrow> False | Some w \<Rightarrow> syl_duration_in_samples > w) then
        Inl (ValueError duration_message)
      else
        ebind (list_get use ind) (\<lambda>selected.
        if selected then
          let syl_audio = syl_audio_slice (rawAudio self) width onset offset in
          ebind (try_make lib spect_maker syl_audio (sampFreq self))
            (\<lambda>(spect_v, freq_bins, time_bins, ws).
          ebind (getattr ''nperseg'' (nperseg spect_maker)) (\<lambda>n.
          ebind (getattr ''noverlap'' (noverlap spect_maker)) (\<lambda>ov.
          ebind (getattr ''freqCutoffs'' (freqCutoffs spect_maker)) (\<lambda>fc.
          let curr_syl = \<lparr>sylAudio = syl_audio, syl_sampFreq = sampFreq self, syl_spect = spect_v,
                           nfft = n, overlap = ov, syl_freqCutoffs = fc, freqBins = freq_bins,
                           timeBins = time_bins, index = ind, label = lbl\<rparr>
          in syl_loop lib self use spect_maker width rest (all_syls @ [curr_syl]) (warns @ ws)))))
        else syl_loop lib self use spect_maker width rest all_syls warns))"



text \<open>
  What is expected of a backend: the axes it returns have the lengths of the two
  dimensions of the matrix it returns.
\<close>

definition backend_consistent :: "'a backend \<Rightarrow> bool" where
  "backend_consistent b =
     (\<forall>raw_audio samp_freq w n ov f t S.
        b raw_audio samp_freq w n ov = Inr (f, t, S) \<longrightarrow>
          length f = shape0 S \<and> length t = shape1 S)"

section \<open>The frequency axis of the scipy backend and concrete inputs\<close>

text \<open>
  \<open>scipy.signal.spectrogram\<close> returns the one-sided frequency axis of a real signal
  with \<open>nfft = nperseg\<close>: the bins \<open>k * samp_freq / nperseg\<close> for
  \<open>k = 0, ..., nperseg // 2\<close>. It is stated here in exact arithmetic.
\<close>

definition scipy_freqs :: "int \<Rightarrow> int \<Rightarrow> real list" where
  "scipy_freqs n samp_freq =
     map (\<lambda>k. real k * (real_of_int samp_freq / real_of_int n)) [0..<nat (n div 2 + 1)]"

text \<open>
  A stand-in backend for concrete runs: it refuses a waveform shorter than the segment
  with the message of the library, and otherwise returns the frequency axis above, one
  time bin, and a one-column matrix whose row \<open>k\<close> holds the frequency of bin \<open>k\<close>.
\<close>

definition axis_matrix :: "int \<Rightarrow> int \<Rightarrow> real matrix" where
  "axis_matrix n samp_freq = \<lparr>ncols = 1, rows = map (\<lambda>f. [f]) (scipy_freqs n samp_freq)\<rparr>"

definition axis_backend :: "real backend" where
  "axis_backend raw_audio samp_freq w n ov =
     (if int (length raw_audio) < n then Inl (ValueError ''window is longer than input signal'')
      else Inr (scipy_freqs n samp_freq, [0], axis_matrix n samp_freq))"

definition axis_lib :: "real numlib" where
  "axis_lib = \<lparr>scipy_spectrogram = axis_backend, mlab_specgram = axis_backend,
               np_log10 = (\<lambda>x. x)\<rparr>"

definition koumura_spectrogram :: spectrogram where
  "koumura_spectrogram =
     \<lparr>nperseg = Attr 512, noverlap = Attr 480, window = Attr (Some (Slepian 512)),
      freqCutoffs = Attr (Some [1000, 8000]), filterFunc = Attr None,
      spectFunc = Attr ''scipy'', logTransformSpect = Attr True, ref = Attr ''koumura''\<rparr>"

definition two_pulses :: "real list" where
  "two_pulses = [0, 6000, 6000, 0, 0, 6000, 6000, 0]"

definition tenths :: "real list" where
  "tenths = [0, 0.1, 0.2, 0.3, 0.4, 0.5, 0.6, 0.7]"

definition close_pulses :: "real list" where
  "close_pulses = [0, 6000, 6000, 6000, 0, 6000, 6000, 0]"

definition hundredths :: "real list" where
  "hundredths = [0, 0.01, 0.02, 0.03, 0.04, 0.05, 0.06, 0.07]"

text \<open>
  A small explicit configuration: segments of 8 samples, band [1000, 3000), the
  difference filter, the scipy backend, no logarithm.
\<close>

definition small_spectrogram :: spectrogram where
  "small_spectrogram =
     \<lparr>nperseg = Attr 8, noverlap = Attr 4, window = Attr None,
      freqCutoffs = Attr (Some [1000, 3000]), filterFunc = Attr (Some ''diff''),
      spectFunc = Attr ''scipy'', logTransformSpect = Attr False, ref = Unset\<rparr>"


text \<open>
  A recording of 100 samples at 8000 Hz with three syllables of 4, 12 and 20 samples,
  labelled a, b and c.
\<close>

definition example_song :: "bool list \<Rightarrow> real song" where
  "example_song selection =
     \<lparr>filename = ''song.wav'', fileFormat = ''koumura'', rawAudio = replicate 100 0,
      sampFreq = 8000, onsets_Hz = [10, 40, 70], offsets_Hz = [14, 52, 90],
      labels = ''abc'', syls_to_use = Attr selection, syls = Unset\<rparr>"

section \<open>Auxiliary lemmas on arrays and \<open>make\<close>\<close>

lemma nonzero_map: "nonzero (map P xs) = filter (\<lambda>i. P (xs ! i)) [0..<length xs]"
  unfolding nonzero_def by (rule filter_cong) simp_all

lemma take_idx_nonzero:
  "take_idx xs (nonzero (map P xs)) = Inr (filter P xs)"
proof -
  have "filter P xs = filter P (map (\<lambda>i. xs ! i) [0..<length xs])"
    by (simp only: map_nth)
  also have "\<dots> = map (\<lambda>i. xs ! i) (filter (\<lambda>i. P (xs ! i)) [0..<length xs])"
    by (simp only: filter_map comp_def)
  finally have m: "map (\<lambda>i. xs ! i) (nonzero (map P xs)) = filter P xs"
    by (simp only: nonzero_map)
  have "list_all (\<lambda>i. i < length xs) (nonzero (map P xs))"
    by (simp add: nonzero_map list_all_iff)
  then show ?thesis unfolding take_idx_def using m by simp
qed

lemma take_idx_nonzero_rows:
  assumes "length ys = length xs"
  shows "take_idx ys (nonzero (map P xs)) = Inr (map snd (filter (\<lambda>p. P (fst p)) (zip xs ys)))"
proof -
  have z: "zip xs ys = map (\<lambda>i. (xs ! i, ys ! i)) [0..<length xs]"
    using assms by (intro nth_equalityI) simp_all
  have "map snd (filter (\<lambda>p. P (fst p)) (zip xs ys))
          = map (\<lambda>i. ys ! i) (filter (\<lambda>i. P (xs ! i)) [0..<length xs])"
    unfolding z by (simp add: filter_map comp_def)
  then have m: "map (\<lambda>i. ys ! i) (nonzero (map P xs))
                  = map snd (filter (\<lambda>p. P (fst p)) (zip xs ys))"
    by (simp only: nonzero_map)
  have "list_all (\<lambda>i. i < length ys) (nonzero (map P xs))"
    using assms by (simp add: nonzero_map list_all_iff)
  then show ?thesis unfolding take_idx_def using m by simp
qed

lemma band_select_eq:
  assumes "length freq_bins = shape0 spect"
  shows "band_select [lo, hi] freq_bins spect
           = Inr (filter (\<lambda>f. real_of_int lo \<le> f \<and> f < real_of_int hi) freq_bins,
                  spect\<lparr>rows := map snd (filter (\<lambda>p. real_of_int lo \<le> fst p \<and> fst p < real_of_int hi)
                                              (zip freq_bins (rows spect)))\<rparr>)"
proof -
  have r: "length (rows spect) = length freq_bins"
    using assms by (simp add: shape0_def)
  have g: "list_get [lo, hi] 0 = Inr lo" "list_get [lo, hi] 1 = Inr hi"
    by (simp_all add: list_get_def)
  show ?thesis
    unfolding band_select_def g ebind_def take_rows_def Let_def
    by (simp add: take_idx_nonzero take_idx_nonzero_rows [OF r])
qed

lemma band_select_shapes:
  assumes "band_select cutoffs freq_bins spect = Inr (freq_bins1, spect1)"
  shows "length freq_bins1 = shape0 spect1 \<and> shape1 spect1 = shape1 spect"
  using assms
  by (auto simp: band_select_def ebind_def take_rows_def take_idx_def shape0_def shape1_def
        Let_def split: sum.splits if_splits)


lemma try_spectrogram_Inr:
  assumes "try_spectrogram lib self raw_audio samp_freq = Inr r"
  shows "\<exists>w n ov. scipy_spectrogram lib raw_audio samp_freq w n ov = Inr r
                  \<or> mlab_specgram lib raw_audio samp_freq w n ov = Inr r"
  using assms
  by (auto simp: try_spectrogram_def getattr_def ebind_def split: attr.splits if_splits)

lemma make_with_band:
  assumes "filterFunc self = Attr ff" and "logTransformSpect self = Attr lt"
    and "freqCutoffs self = Attr (Some [lo, hi])"
    and "try_spectrogram lib self (if ff = Some ''diff'' then np_diff raw_audio else raw_audio)
           samp_freq = Inr (f, t, S)"
    and "length f = shape0 S"
  shows "make lib self raw_audio samp_freq
           = Inr (S\<lparr>rows := rev (map snd (filter (\<lambda>p. real_of_int lo \<le> fst p \<and> fst p < real_of_int hi)
                         (zip f (rows (if lt then map_matrix (np_log10 lib) S else S)))))\<rparr>,
                  rev (filter (\<lambda>x. real_of_int lo \<le> x \<and> x < real_of_int hi) f), t)"
proof -
  let ?S1 = "if lt then map_matrix (np_log10 lib) S else S"
  have l: "length f = shape0 ?S1"
    using assms(5) by (simp add: shape0_def map_matrix_def)
  show ?thesis
    unfolding make_def assms(1,2,3) getattr_def ebind_def Let_def
    using assms(4) band_select_eq [OF l, of lo hi]
    by (simp add: flipud_def map_matrix_def)
qed

lemma length_filter_scipy_freqs:
  "length (filter P (scipy_freqs n fs))
     = card {k. k < nat (n div 2 + 1) \<and> P (real k * (real_of_int fs / real_of_int n))}"
proof -
  have "length (filter P (scipy_freqs n fs))
          = card {i. i < length (scipy_freqs n fs) \<and> P (scipy_freqs n fs ! i)}"
    by (rule length_filter_conv_card)
  also have "{i. i < length (scipy_freqs n fs) \<and> P (scipy_freqs n fs ! i)}
          = {k. k < nat (n div 2 + 1) \<and> P (real k * (real_of_int fs / real_of_int n))}"
    by (auto simp: scipy_freqs_def)
  finally show ?thesis .
qed

lemma band_32000:
  "length (filter (\<lambda>f. real_of_int 1000 \<le> f \<and> f < real_of_int 8000) (scipy_freqs 512 32000)) = 112"
proof -
  have "{k. k < nat (512 div 2 + 1)
            \<and> real_of_int 1000 \<le> real k * (real_of_int 32000 / real_of_int 512)
            \<and> real k * (real_of_int 32000 / real_of_int 512) < real_of_int 8000}
          = {16..<128}"
  proof (rule set_eqI)
    fix k :: nat
    have a: "(real_of_int 1000 \<le> real k * (real_of_int 32000 / real_of_int 512)) = (16 \<le> k)"
      by (simp add: field_simps; linarith)
    have b: "(real k * (real_of_int 32000 / real_of_int 512) < real_of_int 8000) = (k < 128)"
      by (simp add: field_simps; linarith)
    show "k \<in> {k. k < nat (512 div 2 + 1)
            \<and> real_of_int 1000 \<le> real k * (real_of_int 32000 / real_of_int 512)
            \<and> real k * (real_of_int 32000 / real_of_int 512) < real_of_int 8000}
          \<longleftrightarrow> k \<in> {16..<128}"
      unfolding mem_Collect_eq a b by auto
  qed
  then show ?thesis
    by (simp only: length_filter_scipy_freqs card_atLeastLessThan; simp)
qed

lemma band_44100:
  "length (filter (\<lambda>f. real_of_int 1000 \<le> f \<and> f < real_of_int 8000) (scipy_freqs 512 44100)) = 81"
proof -
  have "{k. k < nat (512 div 2 + 1)
            \<and> real_of_int 1000 \<le> real k * (real_of_int 44100 / real_of_int 512)
            \<and> real k * (real_of_int 44100 / real_of_int 512) < real_of_int 8000}
          = {12..<93}"
  proof (rule set_eqI)
    fix k :: nat
    have a: "(real_of_int 1000 \<le> real k * (real_of_int 44100 / real_of_int 512)) = (12 \<le> k)"
      by (simp add: field_simps; linarith)
    have b: "(real k * (real_of_int 44100 / real_of_int 512) < real_of_int 8000) = (k < 93)"
      by (simp add: field_simps; linarith)
    show "k \<in> {k. k < nat (512 div 2 + 1)
            \<and> real_of_int 1000 \<le> real k * (real_of_int 44100 / real_of_int 512)
            \<and> real k * (real_of_int 44100 / real_of_int 512) < real_of_int 8000}
          \<longleftrightarrow> k \<in> {12..<93}"
      unfolding mem_Collect_eq a b by auto
  qed
  then show ?thesis
    by (simp only: length_filter_scipy_freqs card_atLeastLessThan; simp)
qed

lemma length_filter_zip_fst:
  assumes "length ys = length xs"
  shows "length (filter (\<lambda>p. P (fst p)) (zip xs ys)) = length (filter P xs)"
  using assms by (induction ys xs rule: list_induct2) simp_all

lemma koumura_init:
  "Spectrogram_init (PStr ''koumura'') PNone PNone PNone PNone PNone PNone (PBool True)
     = Inr (koumura_spectrogram, [])"
  by (simp add: Spectrogram_init_def slepian_def ebind_def new_spectrogram_def
        koumura_spectrogram_def)

lemma make_koumura:
  assumes "scipy_spectrogram lib raw_audio samp_freq (Some (Slepian 512)) 512 480
             = Inr (f, t, S)"
    and "length f = shape0 S"
  shows "make lib koumura_spectrogram raw_audio samp_freq
           = Inr (S\<lparr>rows := rev (map snd (filter (\<lambda>p. real_of_int 1000 \<le> fst p \<and> fst p < real_of_int 8000)
                         (zip f (rows (map_matrix (np_log10 lib) S)))))\<rparr>,
                  rev (filter (\<lambda>x. real_of_int 1000 \<le> x \<and> x < real_of_int 8000) f), t)"
proof -
  have t: "try_spectrogram lib koumura_spectrogram
             (if (None :: string option) = Some ''diff'' then np_diff raw_audio else raw_audio)
             samp_freq = Inr (f, t, S)"
    using assms(1)
    by (simp add: try_spectrogram_def koumura_spectrogram_def getattr_def ebind_def)
  have "make lib koumura_spectrogram raw_audio samp_freq
           = Inr (S\<lparr>rows := rev (map snd (filter (\<lambda>p. real_of_int 1000 \<le> fst p \<and> fst p < real_of_int 8000)
                         (zip f (rows (if True then map_matrix (np_log10 lib) S else S)))))\<rparr>,
                  rev (filter (\<lambda>x. real_of_int 1000 \<le> x \<and> x < real_of_int 8000) f), t)"
    by (rule make_with_band [OF _ _ _ t assms(2)])
       (simp_all add: koumura_spectrogram_def)
  then show ?thesis by simp
qed

lemma axis_lib_koumura:
  "scipy_spectrogram axis_lib (replicate 512 0) fs (Some (Slepian 512)) 512 480
     = Inr (scipy_freqs 512 fs, [0], axis_matrix 512 fs)"
  by (simp add: axis_lib_def axis_backend_def)

lemma shape0_axis_matrix: "shape0 (axis_matrix n fs) = length (scipy_freqs n fs)"
  by (simp add: axis_matrix_def shape0_def)

lemma length_scipy_freqs: "length (scipy_freqs n fs) = nat (n div 2 + 1)"
  by (simp add: scipy_freqs_def)


lemma flipud_shapes: "shape0 (flipud m) = shape0 m" "shape1 (flipud m) = shape1 m"
  by (simp_all add: flipud_def shape0_def shape1_def)

lemma map_matrix_shapes: "shape0 (map_matrix g m) = shape0 m" "shape1 (map_matrix g m) = shape1 m"
  by (simp_all add: map_matrix_def shape0_def shape1_def)

lemma backend_consistentD:
  assumes "backend_consistent b" and "b raw_audio samp_freq w n ov = Inr (f, t, S)"
  shows "length f = shape0 S \<and> length t = shape1 S"
  using assms unfolding backend_consistent_def by blast

lemma axis_backend_consistent: "backend_consistent axis_backend"
  unfolding backend_consistent_def
  by (auto simp: axis_backend_def axis_matrix_def shape0_def shape1_def split: if_splits)

lemma make_small:
  "make axis_lib small_spectrogram [0, 1, 2, 3, 4, 5, 6, 7, 8] 8000
     = Inr (\<lparr>ncols = 1, rows = [[2000], [1000]]\<rparr>, [2000, 1000], [0])"
  unfolding small_spectrogram_def axis_lib_def by code_simp

section \<open>Auxiliary lemmas on the syllable loop\<close>

lemma syl_loop_append:
  "syl_loop lib self use sm width (xs @ ys) all_syls warns
     = ebind (syl_loop lib self use sm width xs all_syls warns)
         (\<lambda>(a, w). syl_loop lib self use sm width ys a w)"
proof (induction xs arbitrary: all_syls warns)
  case Nil
  show ?case by (simp add: ebind_def)
next
  case (Cons x xs)
  obtain ind lbl onset offset where x: "x = (ind, lbl, onset, offset)"
    by (cases x) auto
  show ?case
    unfolding x append_Cons syl_loop.simps Let_def Cons.IH
    by (simp add: ebind_def split: sum.splits prod.splits)
qed


lemma fixed_width_pads_unclamped:
  assumes "round_half (w - (offset - onset)) \<le> onset"
    and "offset + (w - (offset - onset) - round_half (w - (offset - onset))) \<le> audio_len"
  shows "fixed_width_pads w onset offset audio_len
           = (round_half (w - (offset - onset)),
              w - (offset - onset) - round_half (w - (offset - onset)))"
  using assms by (simp add: fixed_width_pads_def Let_def)


lemma syl_loop_window_step:
  assumes "list_get use ind = Inr True"
    and "\<not> (case width of None \<Rightarrow> False | Some w \<Rightarrow> offset - onset > w)"
    and "make lib sm (syl_audio_slice (rawAudio self) width onset offset) (sampFreq self)
           = Inl WindowError"
    and "nperseg sm = Attr n" and "noverlap sm = Attr ov" and "freqCutoffs sm = Attr fc"
  shows "syl_loop lib self use sm width ((ind, lbl, onset, offset) # rest) all_syls warns
           = syl_loop lib self use sm width rest
               (all_syls @ [\<lparr>sylAudio = syl_audio_slice (rawAudio self) width onset offset,
                              syl_sampFreq = sampFreq self, syl_spect = Nan, nfft = n,
                              overlap = ov, syl_freqCutoffs = fc, freqBins = Nan,
                              timeBins = Nan, index = ind, label = lbl\<rparr>])
               (warns @ [segment_warning])"
proof -
  have t: "try_make lib sm (syl_audio_slice (rawAudio self) width onset offset) (sampFreq self)
             = Inr (Nan, Nan, Nan, [segment_warning])"
    by (simp add: try_make_def assms(3))
  show ?thesis
    unfolding syl_loop.simps Let_def
    using assms(2) by (simp add: assms(1) t assms(4-6) ebind_def getattr_def)
qed

lemma make_short_syllable:
  "make axis_lib small_spectrogram
     (syl_audio_slice (rawAudio (example_song [True, True, True])) None 10 14)
     (sampFreq (example_song [True, True, True])) = Inl WindowError"
  unfolding small_spectrogram_def axis_lib_def example_song_def by code_simp

lemma example_loop:
  "syl_loop axis_lib (example_song [True, True, True]) [True, True, True] small_spectrogram None
     [(1, CHR ''b'', 40, 52), (2, CHR ''c'', 70, 90)]
     [\<lparr>sylAudio = syl_audio_slice (rawAudio (example_song [True, True, True])) None 10 14,
       syl_sampFreq = sampFreq (example_song [True, True, True]), syl_spect = Nan, nfft = 8,
       overlap = 4, syl_freqCutoffs = Some [1000, 3000], freqBins = Nan, timeBins = Nan,
       index = 0, label = CHR ''a''\<rparr>]
     [segment_warning]
   = Inr ([\<lparr>sylAudio = replicate 4 0, syl_sampFreq = 8000, syl_spect = Nan, nfft = 8,
             overlap = 4, syl_freqCutoffs = Some [1000, 3000], freqBins = Nan, timeBins = Nan,
             index = 0, label = CHR ''a''\<rparr>,
           \<lparr>sylAudio = replicate 12 0, syl_sampFreq = 8000,
             syl_spect = Val \<lparr>ncols = 1, rows = [[2000], [1000]]\<rparr>, nfft = 8,
             overlap = 4, syl_freqCutoffs = Some [1000, 3000], freqBins = Val [2000, 1000],
             timeBins = Val [0], index = 1, label = CHR ''b''\<rparr>,
           \<lparr>sylAudio = replicate 20 0, syl_sampFreq = 8000,
             syl_spect = Val \<lparr>ncols = 1, rows = [[2000], [1000]]\<rparr>, nfft = 8,
             overlap = 4, syl_freqCutoffs = Some [1000, 3000], freqBins = Val [2000, 1000],
             timeBins = Val [0], index = 2, label = CHR ''c''\<rparr>],
          [segment_warning])"
  unfolding small_spectrogram_def axis_lib_def example_song_def by code_simp

section \<open>Properties of segmentation\<close>

text \<open>
  C1. Two pulses above threshold, at 0.1 s to 0.3 s and at 0.5 s to 0.7 s, with a silent
  gap of 0.2 s. With a minimum gap of 0.05 s (shorter than the gap) \<open>segment_song\<close>
  returns one pair, the first pulse alone, where two pairs are expected; with a minimum
  gap of 0.3 s (longer than the gap) it returns no pair at all, where the merged pair
  (0.1, 0.7) is expected. The index array computed from the gaps is applied to the onsets
  and the offsets themselves, so the last pulse is always lost and a short gap removes
  the pulse before it.
\<close>

theorem segment_song_two_pulses:
  "segment_song two_pulses tenths
     (Some \<lparr>threshold = 5000, min_syl_dur = 0.05, min_silent_dur = 0.05\<rparr>)
     = Inr ([0.1], [0.3])
   \<and> segment_song two_pulses tenths
     (Some \<lparr>threshold = 5000, min_syl_dur = 0.05, min_silent_dur = 0.3\<rparr>)
     = Inr ([], [])"
  unfolding two_pulses_def tenths_def by code_simp

text \<open>
  C10. Without a parameter dictionary \<open>segment_song\<close> behaves as with threshold 5000,
  minimum syllable duration 0.2 s and minimum silent gap 0.02 s. These are not the
  documented 0.02 s and 0.002 s: on two pulses 0.01 s apart the two parameter sets give
  different results.
\<close>

theorem segment_song_default_params:
  "segment_song amp time_bins None
     = segment_song amp time_bins
         (Some \<lparr>threshold = 5000, min_syl_dur = 0.2, min_silent_dur = 0.02\<rparr>)
   \<and> segment_song close_pulses hundredths None = Inr ([], [])
   \<and> segment_song close_pulses hundredths (Some documented_segment_params)
       = Inr ([0.01], [0.04])"
proof -
  have "segment_song amp time_bins None
     = segment_song amp time_bins
         (Some \<lparr>threshold = 5000, min_syl_dur = 0.2, min_silent_dur = 0.02\<rparr>)"
    by (simp add: segment_song_def default_segment_params_def)
  moreover have "segment_song close_pulses hundredths None = Inr ([], [])"
    unfolding close_pulses_def hundredths_def by code_simp
  moreover have "segment_song close_pulses hundredths (Some documented_segment_params)
       = Inr ([0.01], [0.04])"
    unfolding close_pulses_def hundredths_def documented_segment_params_def by code_simp
  ultimately show ?thesis by simp
qed

section \<open>Properties of the constructor\<close>




text \<open>
  C5. With \<open>ref\<close> and \<open>freq_cutoffs\<close> left as \<open>None\<close> and integer \<open>nperseg\<close> and
  \<open>noverlap\<close>, the constructor raises: for 512 and 480 it is the TypeError of the
  \<open>freq_cutoffs\<close> check, and whatever the other arguments are it never returns an
  object.
\<close>

theorem Spectrogram_init_no_freq_cutoffs:
  "Spectrogram_init PNone (PInt 512) (PInt 480) PNone PNone PNone PNone (PBool True)
     = Inl (TypeError ''type of freq_cutoffs must be list, but is {}'')
   \<and> isl (Spectrogram_init PNone (PInt n) (PInt ov) PNone window_arg filter_func spect_func
            log_transform_spect)"
proof -
  have "isl (init_explicit (PInt n) (PInt ov) PNone window_arg filter_func spect_func
            log_transform_spect)"
    by (simp add: init_explicit_def ebind_def slepian_def Let_def)
  then have "isl (Spectrogram_init PNone (PInt n) (PInt ov) PNone window_arg filter_func
            spect_func log_transform_spect)"
    by (cases "init_explicit (PInt n) (PInt ov) PNone window_arg filter_func spect_func
            log_transform_spect") (simp_all add: Spectrogram_init_def ebind_def)
  moreover have "Spectrogram_init PNone (PInt 512) (PInt 480) PNone PNone PNone PNone (PBool True)
     = Inl (TypeError ''type of freq_cutoffs must be list, but is {}'')"
    by (simp add: Spectrogram_init_def init_explicit_def ebind_def)
  ultimately show ?thesis by simp
qed

section \<open>Properties of \<open>make\<close>\<close>

text \<open>
  C2 (as stated, refuted). The number of bins of the preset \<open>koumura\<close> depends on the
  sampling frequency, an argument of \<open>make\<close>: at 44100 Hz the band [1000, 8000) holds
  81 bins of the scipy axis, not 112.
\<close>

theorem make_band_selection_counterexample:
  "\<not> isl (make axis_lib koumura_spectrogram (replicate 512 0) 44100)
   \<and> length (fst (snd (projr (make axis_lib koumura_spectrogram (replicate 512 0) 44100)))) = 81"
proof -
  have "length (scipy_freqs 512 44100) = shape0 (axis_matrix 512 44100)"
    by (simp add: shape0_axis_matrix)
  from make_koumura [OF axis_lib_koumura this] band_44100
  show ?thesis by simp
qed

text \<open>
  C2 (amended). With a frequency band \<open>[lo, hi]\<close> configured and the backend returning
  an axis \<open>f\<close> as long as the matrix has rows, \<open>make\<close> returns the bins of \<open>f\<close> with
  \<open>lo \<le> f < hi\<close> (in reversed order), and the rows of the matrix paired with exactly
  those bins (in the same reversed order); the time axis is unchanged. The preset
  \<open>koumura\<close> is the object \<open>koumura_spectrogram\<close>, and for it, at a sampling frequency
  of 32000 Hz, the scipy axis of 257 bins is cut to exactly 112 entries, as is the matrix.
\<close>

theorem make_band_selection:
  "(filterFunc self = Attr ff \<and> logTransformSpect self = Attr lt
      \<and> freqCutoffs self = Attr (Some [lo, hi])
      \<and> try_spectrogram lib self (if ff = Some ''diff'' then np_diff raw_audio else raw_audio)
           samp_freq = Inr (f, t, S)
      \<and> length f = shape0 S
    \<longrightarrow> make lib self raw_audio samp_freq
          = Inr (S\<lparr>rows := rev (map snd (filter (\<lambda>p. real_of_int lo \<le> fst p \<and> fst p < real_of_int hi)
                        (zip f (rows (if lt then map_matrix (np_log10 lib) S else S)))))\<rparr>,
                 rev (filter (\<lambda>x. real_of_int lo \<le> x \<and> x < real_of_int hi) f), t))
   \<and> Spectrogram_init (PStr ''koumura'') PNone PNone PNone PNone PNone PNone (PBool True)
       = Inr (koumura_spectrogram, [])
   \<and> (scipy_spectrogram lib raw_audio 32000 (Some (Slepian 512)) 512 480
         = Inr (scipy_freqs 512 32000, t, S)
       \<and> shape0 S = 257
      \<longrightarrow> (\<exists>spect freq_bins.
             make lib koumura_spectrogram raw_audio 32000 = Inr (spect, freq_bins, t)
             \<and> length freq_bins = 112 \<and> shape0 spect = 112))"
proof (intro conjI impI)
  assume "filterFunc self = Attr ff \<and> logTransformSpect self = Attr lt
      \<and> freqCutoffs self = Attr (Some [lo, hi])
      \<and> try_spectrogram lib self (if ff = Some ''diff'' then np_diff raw_audio else raw_audio)
           samp_freq = Inr (f, t, S)
      \<and> length f = shape0 S"
  then show "make lib self raw_audio samp_freq
          = Inr (S\<lparr>rows := rev (map snd (filter (\<lambda>p. real_of_int lo \<le> fst p \<and> fst p < real_of_int hi)
                        (zip f (rows (if lt then map_matrix (np_log10 lib) S else S)))))\<rparr>,
                 rev (filter (\<lambda>x. real_of_int lo \<le> x \<and> x < real_of_int hi) f), t)"
    using make_with_band by blast
next
  show "Spectrogram_init (PStr ''koumura'') PNone PNone PNone PNone PNone PNone (PBool True)
       = Inr (koumura_spectrogram, [])"
    by (rule koumura_init)
next
  assume h: "scipy_spectrogram lib raw_audio 32000 (Some (Slepian 512)) 512 480
         = Inr (scipy_freqs 512 32000, t, S) \<and> shape0 S = 257"
  have len: "length (scipy_freqs 512 32000) = shape0 S"
    using h by (simp add: scipy_freqs_def)
  let ?P = "\<lambda>x. real_of_int 1000 \<le> x \<and> x < real_of_int 8000"
  let ?rows = "rows (map_matrix (np_log10 lib) S)"
  have lr: "length ?rows = length (scipy_freqs 512 32000)"
    using len by (simp add: map_matrix_def shape0_def)
  have m: "make lib koumura_spectrogram raw_audio 32000
           = Inr (S\<lparr>rows := rev (map snd (filter (\<lambda>p. ?P (fst p))
                         (zip (scipy_freqs 512 32000) ?rows)))\<rparr>,
                  rev (filter ?P (scipy_freqs 512 32000)), t)"
    using make_koumura [OF _ len] h by blast
  have "length (filter (\<lambda>p. ?P (fst p)) (zip (scipy_freqs 512 32000) ?rows))
                  = length (filter ?P (scipy_freqs 512 32000))"
    by (rule length_filter_zip_fst [OF lr])
  then have "shape0 (S\<lparr>rows := rev (map snd (filter (\<lambda>p. ?P (fst p))
                         (zip (scipy_freqs 512 32000) ?rows)))\<rparr>) = 112"
    using band_32000 by (simp add: shape0_def)
  moreover have "length (rev (filter ?P (scipy_freqs 512 32000))) = 112"
    using band_32000 by simp
  ultimately show "\<exists>spect freq_bins.
             make lib koumura_spectrogram raw_audio 32000 = Inr (spect, freq_bins, t)
             \<and> length freq_bins = 112 \<and> shape0 spect = 112"
    using m by blast
qed

theorem make_band_selection_witness:
  "filterFunc koumura_spectrogram = Attr None
   \<and> logTransformSpect koumura_spectrogram = Attr True
   \<and> freqCutoffs koumura_spectrogram = Attr (Some [1000, 8000])
   \<and> try_spectrogram axis_lib koumura_spectrogram
         (if (None :: string option) = Some ''diff'' then np_diff (replicate 512 0)
          else replicate 512 0) 32000
       = Inr (scipy_freqs 512 32000, [0], axis_matrix 512 32000)
   \<and> length (scipy_freqs 512 32000) = shape0 (axis_matrix 512 32000)
   \<and> scipy_spectrogram axis_lib (replicate 512 0) 32000 (Some (Slepian 512)) 512 480
       = Inr (scipy_freqs 512 32000, [0], axis_matrix 512 32000)
   \<and> shape0 (axis_matrix 512 32000) = 257
   \<and> make axis_lib koumura_spectrogram (replicate 512 0) 32000
       = Inr ((axis_matrix 512 32000)
                \<lparr>rows := rev (map snd
                   (filter (\<lambda>p. real_of_int 1000 \<le> fst p \<and> fst p < real_of_int 8000)
                     (zip (scipy_freqs 512 32000)
                        (rows (if True then map_matrix (np_log10 axis_lib) (axis_matrix 512 32000)
                               else axis_matrix 512 32000)))))\<rparr>,
              rev (filter (\<lambda>x. real_of_int 1000 \<le> x \<and> x < real_of_int 8000)
                     (scipy_freqs 512 32000)), [0])
   \<and> (\<exists>spect freq_bins.
         make axis_lib koumura_spectrogram (replicate 512 0) 32000 = Inr (spect, freq_bins, [0])
         \<and> length freq_bins = 112 \<and> shape0 spect = 112)"
proof -
  have a: "filterFunc koumura_spectrogram = Attr None"
    "logTransformSpect koumura_spectrogram = Attr True"
    "freqCutoffs koumura_spectrogram = Attr (Some [1000, 8000])"
    by (simp_all add: koumura_spectrogram_def)
  have b: "try_spectrogram axis_lib koumura_spectrogram
         (if (None :: string option) = Some ''diff'' then np_diff (replicate 512 0)
          else replicate 512 0) 32000
       = Inr (scipy_freqs 512 32000, [0], axis_matrix 512 32000)"
    by (simp add: try_spectrogram_def koumura_spectrogram_def getattr_def ebind_def
          axis_lib_koumura)
  have c: "length (scipy_freqs 512 32000) = shape0 (axis_matrix 512 32000)"
    "shape0 (axis_matrix 512 32000) = 257"
    by (simp_all add: shape0_axis_matrix length_scipy_freqs)
  note d = axis_lib_koumura [of 32000]
  note T = make_band_selection [of koumura_spectrogram None True 1000 8000 axis_lib
            "replicate 512 0" 32000 "scipy_freqs 512 32000" "[0]" "axis_matrix 512 32000"]
  have p1: "make axis_lib koumura_spectrogram (replicate 512 0) 32000
       = Inr ((axis_matrix 512 32000)
                \<lparr>rows := rev (map snd
                   (filter (\<lambda>p. real_of_int 1000 \<le> fst p \<and> fst p < real_of_int 8000)
                     (zip (scipy_freqs 512 32000)
                        (rows (if True then map_matrix (np_log10 axis_lib) (axis_matrix 512 32000)
                               else axis_matrix 512 32000)))))\<rparr>,
              rev (filter (\<lambda>x. real_of_int 1000 \<le> x \<and> x < real_of_int 8000)
                     (scipy_freqs 512 32000)), [0])"
    using T a b c(1) by blast
  have p3: "\<exists>spect freq_bins.
         make axis_lib koumura_spectrogram (replicate 512 0) 32000 = Inr (spect, freq_bins, [0])
         \<and> length freq_bins = 112 \<and> shape0 spect = 112"
    using T d c(2) by blast
  show ?thesis
    using a b c d p1 p3 by blast
qed



text \<open>
  C3. Whenever \<open>make\<close> returns, with backends whose axes fit their matrix: the output
  of the backend (before band selection) has a frequency axis as long as the matrix has
  rows and a time axis as long as it has columns; so have the axis and the matrix after
  the optional logarithm and band selection; the returned matrix and frequency axis are
  the reversals of these, and again the frequency axis is as long as the matrix has rows
  and the time axis as long as it has columns.
\<close>

theorem make_axes_consistent:
  assumes "backend_consistent (scipy_spectrogram lib)"
    and "backend_consistent (mlab_specgram lib)"
    and "make lib self raw_audio samp_freq = Inr (spect, freq_bins, time_bins)"
  shows "\<exists>ff lt fc f S f1 S1.
           filterFunc self = Attr ff \<and> logTransformSpect self = Attr lt
           \<and> freqCutoffs self = Attr fc
           \<and> try_spectrogram lib self
                (if ff = Some ''diff'' then np_diff raw_audio else raw_audio) samp_freq
               = Inr (f, time_bins, S)
           \<and> length f = shape0 S \<and> length time_bins = shape1 S
           \<and> (case fc of None \<Rightarrow> Inr (f, if lt then map_matrix (np_log10 lib) S else S)
               | Some cutoffs \<Rightarrow>
                   band_select cutoffs f (if lt then map_matrix (np_log10 lib) S else S))
               = Inr (f1, S1)
           \<and> length f1 = shape0 S1 \<and> length time_bins = shape1 S1
           \<and> spect = flipud S1 \<and> freq_bins = rev f1
           \<and> length freq_bins = shape0 spect \<and> length time_bins = shape1 spect"
proof -
  obtain ff where ff: "filterFunc self = Attr ff"
    using assms(3) by (cases "filterFunc self") (simp_all add: make_def getattr_def ebind_def)
  let ?raw = "if ff = Some ''diff'' then np_diff raw_audio else raw_audio"
  have m1: "make lib self raw_audio samp_freq =
     (case try_spectrogram lib self ?raw samp_freq of
       Inl err \<Rightarrow> Inl (except_ValueError err)
     | Inr (freq_bins, time_bins, spect) \<Rightarrow>
         ebind (getattr ''logTransformSpect'' (logTransformSpect self)) (\<lambda>lt.
         let spect1 = (if lt then map_matrix (np_log10 lib) spect else spect) in
         ebind (getattr ''freqCutoffs'' (freqCutoffs self)) (\<lambda>fc.
         ebind (case fc of None \<Rightarrow> Inr (freq_bins, spect1)
                | Some cutoffs \<Rightarrow> band_select cutoffs freq_bins spect1) (\<lambda>(freq_bins2, spect2).
         Inr (flipud spect2, rev freq_bins2, time_bins)))))"
    unfolding make_def ff getattr_def ebind_def Let_def by simp
  obtain f t S where ts: "try_spectrogram lib self ?raw samp_freq = Inr (f, t, S)"
    using assms(3) unfolding m1
    by (cases "try_spectrogram lib self ?raw samp_freq") auto
  obtain lt where lt: "logTransformSpect self = Attr lt"
    using assms(3) unfolding m1 ts
    by (cases "logTransformSpect self") (simp_all add: getattr_def ebind_def)
  obtain fc where fc: "freqCutoffs self = Attr fc"
    using assms(3) unfolding m1 ts lt
    by (cases "freqCutoffs self") (simp_all add: getattr_def ebind_def)
  let ?S' = "if lt then map_matrix (np_log10 lib) S else S"
  let ?band = "case fc of None \<Rightarrow> Inr (f, ?S') | Some cutoffs \<Rightarrow> band_select cutoffs f ?S'"
  have m2: "make lib self raw_audio samp_freq
              = ebind ?band (\<lambda>(freq_bins2, spect2). Inr (flipud spect2, rev freq_bins2, t))"
    unfolding m1 ts lt fc getattr_def ebind_def Let_def by simp
  obtain f1 S1 where band: "?band = Inr (f1, S1)"
    using assms(3) unfolding m2 by (cases ?band) (auto simp: ebind_def)
  have res: "spect = flipud S1" "freq_bins = rev f1" "time_bins = t"
    using assms(3) unfolding m2 band by (simp_all add: ebind_def)
  have c0: "length f = shape0 S \<and> length t = shape1 S"
    using try_spectrogram_Inr [OF ts] backend_consistentD [OF assms(1)]
      backend_consistentD [OF assms(2)] by blast
  have c0': "length f = shape0 ?S' \<and> shape1 ?S' = shape1 S"
    using c0 by (simp add: map_matrix_shapes)
  have c1: "length f1 = shape0 S1 \<and> shape1 S1 = shape1 ?S'"
  proof (cases fc)
    case None
    then show ?thesis using band c0' by auto
  next
    case (Some cutoffs)
    then show ?thesis using band band_select_shapes [of cutoffs f ?S' f1 S1] by simp
  qed
  have c2: "length freq_bins = shape0 spect \<and> length time_bins = shape1 spect"
    using c0 c0' c1 res by (simp add: flipud_shapes)
  show ?thesis
    using ff lt fc ts band res c0 c0' c1 c2 by (intro exI [of _ ff] exI [of _ lt] exI [of _ fc]
      exI [of _ f] exI [of _ S] exI [of _ f1] exI [of _ S1]) simp
qed

theorem make_axes_consistent_witness:
  "backend_consistent (scipy_spectrogram axis_lib)
   \<and> backend_consistent (mlab_specgram axis_lib)
   \<and> make axis_lib small_spectrogram [0, 1, 2, 3, 4, 5, 6, 7, 8] 8000
       = Inr (\<lparr>ncols = 1, rows = [[2000], [1000]]\<rparr>, [2000, 1000], [0])
   \<and> (\<exists>ff lt fc f S f1 S1.
           filterFunc small_spectrogram = Attr ff \<and> logTransformSpect small_spectrogram = Attr lt
           \<and> freqCutoffs small_spectrogram = Attr fc
           \<and> try_spectrogram axis_lib small_spectrogram
                (if ff = Some ''diff'' then np_diff [0, 1, 2, 3, 4, 5, 6, 7, 8]
                 else [0, 1, 2, 3, 4, 5, 6, 7, 8]) 8000
               = Inr (f, [0], S)
           \<and> length f = shape0 S \<and> length [0 :: real] = shape1 S
           \<and> (case fc of None \<Rightarrow> Inr (f, if lt then map_matrix (np_log10 axis_lib) S else S)
               | Some cutoffs \<Rightarrow>
                   band_select cutoffs f (if lt then map_matrix (np_log10 axis_lib) S else S))
               = Inr (f1, S1)
           \<and> length f1 = shape0 S1 \<and> length [0 :: real] = shape1 S1
           \<and> \<lparr>ncols = 1, rows = [[2000], [1000]]\<rparr> = flipud S1 \<and> [2000, 1000] = rev f1
           \<and> length [2000, 1000 :: real] = shape0 \<lparr>ncols = 1, rows = [[2000 :: real], [1000]]\<rparr>
           \<and> length [0 :: real] = shape1 \<lparr>ncols = 1, rows = [[2000 :: real], [1000]]\<rparr>)"
proof -
  have a: "backend_consistent (scipy_spectrogram axis_lib)"
    "backend_consistent (mlab_specgram axis_lib)"
    by (simp_all add: axis_lib_def axis_backend_consistent)
  from make_axes_consistent [OF a make_small] a make_small
  show ?thesis by blast
qed

section \<open>Properties of \<open>make_syl_spects\<close>\<close>

text \<open>
  C7. A syllable at samples 0 to 100 of a recording of 1000 samples, with a fixed width
  of 300 samples: the left padding would be 100 and reach before sample 0, so the clamp
  applies, and it yields the paddings (0, 100) and a slice of 200 samples, where
  \<open>right_pad = W - D = 200\<close> and a slice of 300 samples are expected: the clamp
  subtracts the offset from the padding difference. Away from the boundaries (syllable at
  500 to 600) the paddings are (100, 100) and the slice has the full 300 samples.
\<close>

theorem fixed_width_pads_at_start:
  "fixed_width_pads 300 0 100 1000 = (0, 100)
   \<and> length (syl_audio_slice (replicate 1000 0) (Some 300) 0 100) = 200
   \<and> fixed_width_pads 300 500 600 1000 = (100, 100)
   \<and> length (syl_audio_slice (replicate 1000 0) (Some 300) 500 600) = 300"
  by (simp add: syl_audio_slice_def fixed_width_pads_def round_half_def py_slice_def)




text \<open>
  C8. In the loop over the syllables, when the syllables before have been processed and
  \<open>make\<close> raises WindowError on the audio of a selected syllable, the loop goes on
  with the remaining syllables: the syllable is appended with \<open>np.nan\<close> as its
  spectrogram and axes, one warning is added, and nothing is raised at this syllable.
  The sentinel \<open>Nan\<close> is a value distinct from every matrix \<open>Val m\<close>.
\<close>

theorem syl_loop_window_error:
  assumes "syl_loop lib self use sm width pre all_syls warns = Inr (syls1, warns1)"
    and "list_get use ind = Inr True"
    and "\<not> (case width of None \<Rightarrow> False | Some w \<Rightarrow> offset - onset > w)"
    and "make lib sm (syl_audio_slice (rawAudio self) width onset offset) (sampFreq self)
           = Inl WindowError"
    and "nperseg sm = Attr n" and "noverlap sm = Attr ov" and "freqCutoffs sm = Attr fc"
  shows "syl_loop lib self use sm width (pre @ (ind, lbl, onset, offset) # rest) all_syls warns
           = syl_loop lib self use sm width rest
               (syls1 @ [\<lparr>sylAudio = syl_audio_slice (rawAudio self) width onset offset,
                           syl_sampFreq = sampFreq self, syl_spect = Nan, nfft = n,
                           overlap = ov, syl_freqCutoffs = fc, freqBins = Nan,
                           timeBins = Nan, index = ind, label = lbl\<rparr>])
               (warns1 @ [segment_warning])"
proof -
  have "syl_loop lib self use sm width (pre @ (ind, lbl, onset, offset) # rest) all_syls warns
          = syl_loop lib self use sm width ((ind, lbl, onset, offset) # rest) syls1 warns1"
    by (simp only: syl_loop_append assms(1) ebind_def sum.case prod.case)
  also have "\<dots> = syl_loop lib self use sm width rest
               (syls1 @ [\<lparr>sylAudio = syl_audio_slice (rawAudio self) width onset offset,
                           syl_sampFreq = sampFreq self, syl_spect = Nan, nfft = n,
                           overlap = ov, syl_freqCutoffs = fc, freqBins = Nan,
                           timeBins = Nan, index = ind, label = lbl\<rparr>])
               (warns1 @ [segment_warning])"
    by (rule syl_loop_window_step [OF assms(2-7)])
  finally show ?thesis .
qed

theorem syl_loop_window_error_witness:
  "syl_loop axis_lib (example_song [True, True, True]) [True, True, True] small_spectrogram None
       [] [] [] = Inr ([], [])
   \<and> list_get [True, True, True] 0 = Inr True
   \<and> \<not> (case (None :: int option) of None \<Rightarrow> False | Some w \<Rightarrow> 14 - 10 > w)
   \<and> make axis_lib small_spectrogram
         (syl_audio_slice (rawAudio (example_song [True, True, True])) None 10 14)
         (sampFreq (example_song [True, True, True])) = Inl WindowError
   \<and> nperseg small_spectrogram = Attr 8 \<and> noverlap small_spectrogram = Attr 4
   \<and> freqCutoffs small_spectrogram = Attr (Some [1000, 3000])
   \<and> syl_loop axis_lib (example_song [True, True, True]) [True, True, True] small_spectrogram
         None [(0, CHR ''a'', 10, 14), (1, CHR ''b'', 40, 52), (2, CHR ''c'', 70, 90)]
         [] []
       = Inr ([\<lparr>sylAudio = replicate 4 0, syl_sampFreq = 8000, syl_spect = Nan, nfft = 8,
                 overlap = 4, syl_freqCutoffs = Some [1000, 3000], freqBins = Nan,
                 timeBins = Nan, index = 0, label = CHR ''a''\<rparr>,
               \<lparr>sylAudio = replicate 12 0, syl_sampFreq = 8000,
                 syl_spect = Val \<lparr>ncols = 1, rows = [[2000], [1000]]\<rparr>, nfft = 8,
                 overlap = 4, syl_freqCutoffs = Some [1000, 3000],
                 freqBins = Val [2000, 1000], timeBins = Val [0], index = 1,
                 label = CHR ''b''\<rparr>,
               \<lparr>sylAudio = replicate 20 0, syl_sampFreq = 8000,
                 syl_spect = Val \<lparr>ncols = 1, rows = [[2000], [1000]]\<rparr>, nfft = 8,
                 overlap = 4, syl_freqCutoffs = Some [1000, 3000],
                 freqBins = Val [2000, 1000], timeBins = Val [0], index = 2,
                 label = CHR ''c''\<rparr>],
              [segment_warning])"
proof -
  have h1: "syl_loop axis_lib (example_song [True, True, True]) [True, True, True]
              small_spectrogram None [] [] [] = Inr ([], [])"
    by simp
  have h2: "list_get [True, True, True] 0 = Inr True"
    by (simp add: list_get_def)
  have h3: "\<not> (case (None :: int option) of None \<Rightarrow> False | Some w \<Rightarrow> 14 - 10 > w)"
    by simp
  have h5: "nperseg small_spectrogram = Attr 8" "noverlap small_spectrogram = Attr 4"
    "freqCutoffs small_spectrogram = Attr (Some [1000, 3000])"
    by (simp_all add: small_spectrogram_def)
  note T = syl_loop_window_error [OF h1 h2 h3 make_short_syllable h5,
             of "CHR ''a''" "[(1, CHR ''b'', 40, 52), (2, CHR ''c'', 70, 90)]",
             unfolded append_Nil]
  have r: "syl_loop axis_lib (example_song [True, True, True]) [True, True, True]
             small_spectrogram None
             [(0, CHR ''a'', 10, 14), (1, CHR ''b'', 40, 52), (2, CHR ''c'', 70, 90)]
             [] []
       = Inr ([\<lparr>sylAudio = replicate 4 0, syl_sampFreq = 8000, syl_spect = Nan, nfft = 8,
                 overlap = 4, syl_freqCutoffs = Some [1000, 3000], freqBins = Nan,
                 timeBins = Nan, index = 0, label = CHR ''a''\<rparr>,
               \<lparr>sylAudio = replicate 12 0, syl_sampFreq = 8000,
                 syl_spect = Val \<lparr>ncols = 1, rows = [[2000], [1000]]\<rparr>, nfft = 8,
                 overlap = 4, syl_freqCutoffs = Some [1000, 3000],
                 freqBins = Val [2000, 1000], timeBins = Val [0], index = 1,
                 label = CHR ''b''\<rparr>,
               \<lparr>sylAudio = replicate 20 0, syl_sampFreq = 8000,
                 syl_spect = Val \<lparr>ncols = 1, rows = [[2000], [1000]]\<rparr>, nfft = 8,
                 overlap = 4, syl_freqCutoffs = Some [1000, 3000],
                 freqBins = Val [2000, 1000], timeBins = Val [0], index = 2,
                 label = CHR ''c''\<rparr>],
              [segment_warning])"
    by (rule trans [OF T example_loop])
  show ?thesis
    using h1 h2 h3 make_short_syllable h5 r by blast
qed

end
